theory Spec2Isabelle
  imports Complex_Main "HOL-Library.List_Lexorder"
begin

section \<open>Data model (agent/state.py)\<close>

text \<open>
  A Python \<^verbatim>\<open>str\<close> is a sequence of Unicode code points. The texts that the code cuts
  at whitespace or lower-cases (the skill labels, and with them the items of the extracted
  lists) are lists of code points, so that these operations can follow Python's Unicode
  rules. The texts that the tools only hand on or build from ASCII pieces (ad texts, todo
  contents, messages, dictionary keys) are byte strings. \<open>ascii\<close> writes an ASCII
  literal as code points.
\<close>

type_synonym pystr = "nat list"

definition ascii :: "string \<Rightarrow> pystr" where
  "ascii s = map of_char s"

text \<open>
  \<^verbatim>\<open>SkillTypes\<close> is a Pydantic model with three \<^verbatim>\<open>List[str]\<close> fields; the three lists
  keep the order and the duplicates the code gives them.
\<close>

record SkillTypes =
  hard :: "pystr list"
  soft :: "pystr list"
  both :: "pystr list"

text \<open>
  What the state can hold under \<^verbatim>\<open>"skills"\<close>. The schema declares a \<^verbatim>\<open>SkillTypes\<close>
  model, but the skill tools write \<^verbatim>\<open>model_dump()\<close>, a plain dict, into their patch
  (\<open>None\<close> is the empty dict \<^verbatim>\<open>{}\<close>). For Python a model and a dict with keys are
  true and the empty dict is false; a dict has neither \<^verbatim>\<open>model_copy\<close> nor the attributes
  \<^verbatim>\<open>hard\<close>, \<^verbatim>\<open>soft\<close>, \<^verbatim>\<open>both\<close>.
\<close>

datatype skills_value = SkillsModel SkillTypes | SkillsDict "SkillTypes option"

record JobAdContent =
  ad_text :: string

datatype todo_status = pending | in_progress | completed

record Todo =
  content :: string
  status :: todo_status

text \<open>
  \<^verbatim>\<open>ReActConversationState\<close> is a TypedDict: a key may be missing, and the tools read it
  with \<^verbatim>\<open>state.get\<close>. A missing key is \<open>None\<close>. The message log holds the contents of
  the tool messages.
\<close>

record ReActConversationState =
  messages :: "string list"
  user_id :: string
  skills :: "skills_value option"
  job_ads :: "JobAdContent list option"
  todos :: "Todo list option"
  requirements :: "pystr list option"
  responsibilities :: "pystr list option"

text \<open>The three lists a state holds, as a model or as a dumped dict.\<close>

definition skill_lists :: "skills_value \<Rightarrow> SkillTypes option" where
  "skill_lists v = (case v of SkillsModel m \<Rightarrow> Some m | SkillsDict d \<Rightarrow> d)"

definition current_skills :: "ReActConversationState \<Rightarrow> SkillTypes option" where
  "current_skills st = (case skills st of None \<Rightarrow> None | Some v \<Rightarrow> skill_lists v)"

text \<open>\<^verbatim>\<open>EvalResults\<close> (agent/evaluation.py); Python floats are taken as reals.\<close>

record EvalResults =
  reasoning :: "string list"
  score :: "real list"

text \<open>
  The value stored under \<^verbatim>\<open>result_evaluation[task]\<close>: for \<^verbatim>\<open>"skills"\<close> a list of
  one-key dicts \<^verbatim>\<open>{name: {"reasoning": .., "score": ..}}\<close>, for the other tasks one
  dict \<^verbatim>\<open>{"reasoning": .., "score": ..}\<close>.
\<close>

datatype eval_value = SkillResults "(string \<times> EvalResults) list" | TaskResult EvalResults

type_synonym evaluation = "string \<rightharpoonup> eval_value"

text \<open>
  The \<^verbatim>\<open>update\<close> dict of a returned \<^verbatim>\<open>Command\<close>: one optional entry per key the tools
  write, and the list of new messages. The entry for \<^verbatim>\<open>"skills"\<close> is always a dict: the
  dumped model, or the empty dict \<^verbatim>\<open>{}\<close> (\<open>Some None\<close>).
\<close>

record Command =
  upd_skills :: "SkillTypes option option"
  upd_requirements :: "pystr list option"
  upd_responsibilities :: "pystr list option"
  upd_evaluation :: "evaluation option"
  upd_messages :: "string list"

datatype py_error = UnboundLocalError | KeyError | AttributeError

text \<open>
  Modelled from the spec: the driver that applies a returned patch to the shared state
  is the agent framework, which is not part of the source files. Section 5 of the
  specification gives the merge policy: the message log is appended to; the skill set,
  the requirement list and the responsibility list are replaced by the value of the
  patch when the patch has the key. The value of a skills patch is the dict the tool
  dumped, and it is stored as it is. The state schema declares no \<^verbatim>\<open>evaluation\<close> key,
  so the evaluation mapping is read from the command.
\<close>

definition apply_update :: "ReActConversationState \<Rightarrow> Command \<Rightarrow> ReActConversationState" where
  "apply_update st cmd =
     st\<lparr> messages := messages st @ upd_messages cmd,
         skills := (case upd_skills cmd of None \<Rightarrow> skills st | Some d \<Rightarrow> Some (SkillsDict d)),
         requirements := (case upd_requirements cmd of None \<Rightarrow> requirements st | Some r \<Rightarrow> Some r),
         responsibilities :=
           (case upd_responsibilities cmd of None \<Rightarrow> responsibilities st | Some r \<Rightarrow> Some r) \<rparr>"

definition only_message :: "string \<Rightarrow> Command" where
  "only_message m =
     \<lparr> upd_skills = None, upd_requirements = None, upd_responsibilities = None,
       upd_evaluation = None, upd_messages = [m] \<rparr>"

section \<open>Python helpers\<close>

text \<open>\<^verbatim>\<open>str(n)\<close> for a length inside an f-string.\<close>

fun digit_char :: "nat \<Rightarrow> char" where
  "digit_char n = char_of (48 + n)"

fun string_of_nat :: "nat \<Rightarrow> string" where
  "string_of_nat n =
     (if n < 10 then [digit_char n] else string_of_nat (n div 10) @ [digit_char (n mod 10)])"

declare string_of_nat.simps [simp del]

text \<open>
  Python leaves the iteration order of a \<^verbatim>\<open>set\<close> open (it depends on the hashes of the
  members). The order is a parameter of the model: \<open>iter S\<close> is the list that iterating
  over the set \<open>S\<close>, or \<^verbatim>\<open>list(S)\<close>, gives. Any order is admissible as long as it lists
  every member once.
\<close>

type_synonym set_iter = "pystr set \<Rightarrow> pystr list"

definition set_iter_ok :: "set_iter \<Rightarrow> bool" where
  "set_iter_ok iter \<longleftrightarrow> (\<forall>S. finite S \<longrightarrow> set (iter S) = S \<and> distinct (iter S))"

section \<open>Skill reconciliation (agent/skill\_utils.py, check\_for\_bothskills)\<close>

text \<open>
  The loop over the intersection: \<^verbatim>\<open>both_skills.append(skill)\<close>,
  \<^verbatim>\<open>hard_set.remove(skill)\<close>, \<^verbatim>\<open>soft_set.remove(skill)\<close>. \<^verbatim>\<open>set.remove\<close> raises
  \<^verbatim>\<open>KeyError\<close> when the member is missing.
\<close>

fun move_loop ::
  "pystr list \<Rightarrow> pystr list \<times> pystr set \<times> pystr set \<Rightarrow>
     py_error + (pystr list \<times> pystr set \<times> pystr set)" where
  "move_loop [] acc = Inr acc"
| "move_loop (skill # rest) (both_skills, hard_set, soft_set) =
     (if skill \<notin> hard_set then Inl KeyError
      else if skill \<notin> soft_set then Inl KeyError
      else move_loop rest (both_skills @ [skill], hard_set - {skill}, soft_set - {skill}))"

text \<open>The contents of the two tool messages of the step.\<close>

definition found_message :: "nat \<Rightarrow> string" where
  "found_message n =
     ''Found '' @ string_of_nat n @
     '' matching skills when validated HARD and SOFT skills. State updated under the 'skills' key.''"

definition unique_message :: string where
  "unique_message = ''Hard & Soft skills were validated, all values are unique!''"

text \<open>
  When the state has no skills (or the empty dict), \<^verbatim>\<open>hard_skills\<close> is never bound and
  \<^verbatim>\<open>set(hard_skills)\<close> raises \<^verbatim>\<open>UnboundLocalError\<close>. When it holds a dumped dict,
  \<^verbatim>\<open>skill_state.model_copy\<close> raises \<^verbatim>\<open>AttributeError\<close>.
\<close>

definition check_for_bothskills :: "set_iter \<Rightarrow> ReActConversationState \<Rightarrow> py_error + Command" where
  "check_for_bothskills iter st =
     (case skills st of
        None \<Rightarrow> Inl UnboundLocalError
      | Some (SkillsDict None) \<Rightarrow> Inl UnboundLocalError
      | Some (SkillsDict (Some d)) \<Rightarrow> Inl AttributeError
      | Some (SkillsModel existing_skill_state) \<Rightarrow>
          let hard_set = set (hard existing_skill_state);
              soft_set = set (soft existing_skill_state)
          in if card (hard_set \<inter> soft_set) > 0 then
               (case move_loop (iter (hard_set \<inter> soft_set)) ([], hard_set, soft_set) of
                  Inl e \<Rightarrow> Inl e
                | Inr (both_skills, hard_set', soft_set') \<Rightarrow>
                    Inr \<lparr> upd_skills =
                            Some (Some (existing_skill_state
                              \<lparr> hard := iter hard_set', soft := iter soft_set',
                                both := both_skills \<rparr>)),
                          upd_requirements = None, upd_responsibilities = None,
                          upd_evaluation = None,
                          upd_messages =
                            [found_message (length both_skills)] \<rparr>)
             else Inr (only_message unique_message))"

text \<open>The state after the step: the returned patch applied to the state.\<close>

definition reconcile :: "set_iter \<Rightarrow> ReActConversationState \<Rightarrow> py_error + ReActConversationState" where
  "reconcile iter st =
     (case check_for_bothskills iter st of Inl e \<Rightarrow> Inl e | Inr cmd \<Rightarrow> Inr (apply_update st cmd))"

section \<open>Skill extraction (agent/skill\_utils.py)\<close>

text \<open>
  \<^verbatim>\<open>str.split()\<close> without arguments cuts at runs of whitespace and drops empty pieces.
  Python's whitespace code points are U+0009 to U+000D, U+001C to U+0020, U+0085, U+00A0,
  U+1680, U+2000 to U+200A, U+2028, U+2029, U+202F, U+205F and U+3000.
  \<^verbatim>\<open>" ".join\<close> puts one space between the pieces.
\<close>

definition is_whitespace :: "nat \<Rightarrow> bool" where
  "is_whitespace c \<longleftrightarrow>
     (9 \<le> c \<and> c \<le> 13) \<or> (28 \<le> c \<and> c \<le> 32) \<or> c = 133 \<or> c = 160 \<or> c = 5760 \<or>
     (8192 \<le> c \<and> c \<le> 8202) \<or> c = 8232 \<or> c = 8233 \<or> c = 8239 \<or> c = 8287 \<or> c = 12288"

fun split_ws :: "pystr \<Rightarrow> pystr \<Rightarrow> pystr list" where
  "split_ws w [] = (if w = [] then [] else [w])"
| "split_ws w (c # cs) =
     (if is_whitespace c then (if w = [] then split_ws [] cs else w # split_ws [] cs)
      else split_ws (w @ [c]) cs)"

definition py_split :: "pystr \<Rightarrow> pystr list" where
  "py_split s = split_ws [] s"

fun py_join :: "pystr \<Rightarrow> pystr list \<Rightarrow> pystr" where
  "py_join sep [] = []"
| "py_join sep [x] = x"
| "py_join sep (x # y # ys) = x @ sep @ py_join sep (y # ys)"

text \<open>
  \<^verbatim>\<open>str.lower()\<close> follows the case mappings of the Unicode database, which is part of the
  Python runtime and not of the source files: it is a parameter \<open>lower\<close> of the model.
  The normalisation of one label is
  \<^verbatim>\<open>" ".join(skill.split()).lower() if "_" in skill else skill.lower()\<close>;
  the underscore is code point 95 and the space 32.
\<close>

type_synonym str_lower = "pystr \<Rightarrow> pystr"

definition normalise :: "str_lower \<Rightarrow> pystr \<Rightarrow> pystr" where
  "normalise lower skill =
     (if 95 \<in> set skill then lower (py_join [32] (py_split skill))
      else lower skill)"

text \<open>A string whose whitespace is collapsed: splitting and joining gives it back.\<close>

definition ws_collapsed :: "pystr \<Rightarrow> bool" where
  "ws_collapsed s \<longleftrightarrow> py_join [32] (py_split s) = s"

text \<open>A piece of a split: not empty and free of whitespace.\<close>

definition word_ok :: "pystr \<Rightarrow> bool" where
  "word_ok w \<longleftrightarrow> w \<noteq> [] \<and> (\<forall>c \<in> set w. \<not> is_whitespace c)"

text \<open>
  What \<^verbatim>\<open>str.lower()\<close> does to a text of ASCII code points: the capitals \<open>A\<close> to \<open>Z\<close>
  become small letters and nothing else changes. It stands for the parameter \<open>lower\<close>
  in the examples, whose labels are ASCII.
\<close>

definition ascii_lower :: str_lower where
  "ascii_lower s = map (\<lambda>c. if 65 \<le> c \<and> c \<le> 90 then c + 32 else c) s"

text \<open>
  The few-shot examples (\<^verbatim>\<open>lx.data.ExampleData\<close>, \<^verbatim>\<open>lx.data.Extraction\<close>) and the
  records of the example file, which have the same shape. The file's content is a
  parameter of the tools.
\<close>

record Extraction =
  extraction_class :: pystr
  extraction_text :: pystr
  attributes :: "(pystr \<times> pystr) list"

record ExampleData =
  example_text :: string
  extractions :: "Extraction list"

definition build_examples :: "ExampleData list \<Rightarrow> ExampleData list" where
  "build_examples examples_json =
     concat (map (\<lambda>example.
        if extractions example \<noteq> [] then
          map (\<lambda>extraction. \<lparr> example_text = example_text example, extractions = [extraction] \<rparr>)
            (extractions example)
        else []) examples_json)"

text \<open>
  The extraction collaborator \<^verbatim>\<open>lx.extract\<close> is a parameter: from the text of an ad and
  the examples it gives \<^verbatim>\<open>results.extractions\<close>. The prompt and the model are fixed in
  each tool, so they are part of the parameter.
\<close>

type_synonym lx_extract = "string \<Rightarrow> ExampleData list \<Rightarrow> Extraction list"

definition no_job_ads_message :: string where
  "no_job_ads_message = ''No job_ads were found in the state!''"

definition soft_message :: "nat \<Rightarrow> string" where
  "soft_message n =
     ''Successfully extracted '' @ string_of_nat n @
     '' new soft skills. State updated under the 'skills' key.''"

definition hard_message :: "nat \<Rightarrow> string" where
  "hard_message n =
     ''Successfully extracted '' @ string_of_nat n @
     '' new hard skills. State updated under the 'skills' key.''"

text \<open>
  The loop over the advertisements. Its two variables are \<^verbatim>\<open>updated_dictionary\<close>
  (\<open>None\<close> is the empty dict it starts as) and \<^verbatim>\<open>updated_softskills\<close> (\<open>None\<close> while
  unbound). Every round reads the skills of the state the tool was called with; on a
  dumped dict \<^verbatim>\<open>model_copy\<close> raises \<^verbatim>\<open>AttributeError\<close>.
\<close>

fun soft_loop ::
  "set_iter \<Rightarrow> str_lower \<Rightarrow> lx_extract \<Rightarrow> ExampleData list \<Rightarrow> skills_value option \<Rightarrow>
     string list \<Rightarrow> SkillTypes option \<times> pystr list option \<Rightarrow>
     py_error + (SkillTypes option \<times> pystr list option)" where
  "soft_loop iter lower lx examples current [] acc = Inr acc"
| "soft_loop iter lower lx examples current (ad # ads) (updated_dictionary, updated_softskills) =
     (let results = lx ad examples;
          softskills = map extraction_class results;
          softskills_normalised = map (normalise lower) softskills
      in case current of
           None \<Rightarrow>
             soft_loop iter lower lx examples current ads (updated_dictionary, updated_softskills)
         | Some (SkillsDict None) \<Rightarrow>
             soft_loop iter lower lx examples current ads (updated_dictionary, updated_softskills)
         | Some (SkillsDict (Some d)) \<Rightarrow> Inl AttributeError
         | Some (SkillsModel current_skill_state) \<Rightarrow>
             let updated = iter (set (soft current_skill_state @ softskills_normalised))
             in soft_loop iter lower lx examples current ads
                  (Some (current_skill_state\<lparr> soft := updated \<rparr>), Some updated))"

definition extract_soft_skills ::
  "set_iter \<Rightarrow> str_lower \<Rightarrow> lx_extract \<Rightarrow> ExampleData list \<Rightarrow> ReActConversationState \<Rightarrow>
     py_error + Command" where
  "extract_soft_skills iter lower lx softskills_json st =
     (let examples = build_examples softskills_json;
          ads = (case job_ads st of None \<Rightarrow> [] | Some xs \<Rightarrow> xs)
      in if ads = [] then Inr (only_message no_job_ads_message)
         else
           (case soft_loop iter lower lx examples (skills st) (map ad_text ads) (None, None) of
              Inl e \<Rightarrow> Inl e
            | Inr (updated_dictionary, None) \<Rightarrow> Inl UnboundLocalError
            | Inr (updated_dictionary, Some updated_softskills) \<Rightarrow>
                Inr \<lparr> upd_skills = Some updated_dictionary,
                      upd_requirements = None, upd_responsibilities = None,
                      upd_evaluation = None,
                      upd_messages = [soft_message (length updated_softskills)] \<rparr>))"

fun hard_loop ::
  "set_iter \<Rightarrow> str_lower \<Rightarrow> lx_extract \<Rightarrow> ExampleData list \<Rightarrow> skills_value option \<Rightarrow>
     string list \<Rightarrow> SkillTypes option \<times> pystr list option \<Rightarrow>
     py_error + (SkillTypes option \<times> pystr list option)" where
  "hard_loop iter lower lx examples current [] acc = Inr acc"
| "hard_loop iter lower lx examples current (ad # ads) (updated_dictionary, updated_hardskills) =
     (let results = lx ad examples;
          hardskills = map extraction_class results;
          hardskills_normalised = map (normalise lower) hardskills
      in case current of
           None \<Rightarrow>
             hard_loop iter lower lx examples current ads (updated_dictionary, updated_hardskills)
         | Some (SkillsDict None) \<Rightarrow>
             hard_loop iter lower lx examples current ads (updated_dictionary, updated_hardskills)
         | Some (SkillsDict (Some d)) \<Rightarrow> Inl AttributeError
         | Some (SkillsModel current_skill_state) \<Rightarrow>
             let updated = iter (set (hard current_skill_state @ hardskills_normalised))
             in hard_loop iter lower lx examples current ads
                  (Some (current_skill_state\<lparr> hard := updated \<rparr>), Some updated))"

definition extract_hard_skills ::
  "set_iter \<Rightarrow> str_lower \<Rightarrow> lx_extract \<Rightarrow> ExampleData list \<Rightarrow> ReActConversationState \<Rightarrow>
     py_error + Command" where
  "extract_hard_skills iter lower lx hardskills_json st =
     (let examples = build_examples hardskills_json;
          ads = (case job_ads st of None \<Rightarrow> [] | Some xs \<Rightarrow> xs)
      in if ads = [] then Inr (only_message no_job_ads_message)
         else
           (case hard_loop iter lower lx examples (skills st) (map ad_text ads) (None, None) of
              Inl e \<Rightarrow> Inl e
            | Inr (updated_dictionary, None) \<Rightarrow> Inl UnboundLocalError
            | Inr (updated_dictionary, Some updated_hardskills) \<Rightarrow>
                Inr \<lparr> upd_skills = Some updated_dictionary,
                      upd_requirements = None, upd_responsibilities = None,
                      upd_evaluation = None,
                      upd_messages = [hard_message (length updated_hardskills)] \<rparr>))"

section \<open>Requirements and responsibilities (agent/req\_and\_res.py)\<close>

text \<open>
  The language-model chain is a parameter: from the text of an ad it gives the list of
  the structured output. The loop keeps the list of the round it is in.
\<close>

definition extracted_message :: "nat \<Rightarrow> string" where
  "extracted_message n = string_of_nat n @ '' were extracted from the job advertisment!''"

fun chain_loop :: "(string \<Rightarrow> pystr list) \<Rightarrow> string list \<Rightarrow> pystr list option \<Rightarrow> pystr list option" where
  "chain_loop chain [] acc = acc"
| "chain_loop chain (ad # ads) acc = chain_loop chain ads (Some (chain ad))"

definition extract_responsibilities ::
  "(string \<Rightarrow> pystr list) \<Rightarrow> ReActConversationState \<Rightarrow> py_error + Command" where
  "extract_responsibilities chain st =
     (let ads = (case job_ads st of None \<Rightarrow> [] | Some xs \<Rightarrow> xs)
      in if ads = [] then Inr (only_message no_job_ads_message)
         else
           (case chain_loop chain (map ad_text ads) None of
              None \<Rightarrow> Inl KeyError
            | Some responsibilities_list \<Rightarrow>
                Inr \<lparr> upd_skills = None, upd_requirements = None,
                      upd_responsibilities = Some responsibilities_list,
                      upd_evaluation = None,
                      upd_messages = [extracted_message (length responsibilities_list)] \<rparr>))"

definition extract_requirements ::
  "(string \<Rightarrow> pystr list) \<Rightarrow> ReActConversationState \<Rightarrow> py_error + Command" where
  "extract_requirements chain st =
     (let ads = (case job_ads st of None \<Rightarrow> [] | Some xs \<Rightarrow> xs)
      in if ads = [] then Inr (only_message no_job_ads_message)
         else
           (case chain_loop chain (map ad_text ads) None of
              None \<Rightarrow> Inl KeyError
            | Some requirements_list \<Rightarrow>
                Inr \<lparr> upd_skills = None, upd_requirements = Some requirements_list,
                      upd_responsibilities = None,
                      upd_evaluation = None,
                      upd_messages = [extracted_message (length requirements_list)] \<rparr>))"

section \<open>Evaluation (agent/evaluation.py, evaluate\_correctness)\<close>

definition score_range :: "int \<times> int" where
  "score_range = (0, 10)"

definition eval_criteria :: string where
  "eval_criteria = ''Correctness''"

definition tasks :: "string list" where
  "tasks = [''skills'', ''requirements'', ''responsibilities'']"

text \<open>
  What the rendered prompt of one call depends on: the ad, the items to judge, the task
  name, the criterion and the two ends of the score range. The rubric texts are the same
  in every request and are left out. The judging model is a parameter: from a request it
  gives the structured \<^verbatim>\<open>EvalResults\<close>.
\<close>

record scoring_request =
  req_job_ad :: string
  req_extracted_outputs :: "pystr list"
  req_task :: string
  req_eval_criteria :: string
  req_score_min :: int
  req_score_max :: int

type_synonym judge = "scoring_request \<Rightarrow> EvalResults"

definition format_prompt :: "string \<Rightarrow> pystr list \<Rightarrow> string \<Rightarrow> scoring_request" where
  "format_prompt ad outputs task =
     \<lparr> req_job_ad = ad, req_extracted_outputs = outputs, req_task = task,
       req_eval_criteria = eval_criteria,
       req_score_min = fst score_range, req_score_max = snd score_range \<rparr>"

text \<open>
  One call of the model and the normalisation of its scores:
  \<^verbatim>\<open>scores = [score / score_range[1] for score in scores]\<close>.
\<close>

definition judge_outputs :: "judge \<Rightarrow> string \<Rightarrow> string \<Rightarrow> pystr list \<Rightarrow> EvalResults" where
  "judge_outputs jdg ad task outputs =
     (let result = jdg (format_prompt ad outputs task);
          scores = map (\<lambda>raw. raw / real_of_int (snd score_range)) (score result)
      in \<lparr> reasoning = reasoning result, score = scores \<rparr>)"

text \<open>The loop over the three skill lists, skipping an empty one.\<close>

fun skill_loop ::
  "judge \<Rightarrow> string \<Rightarrow> string \<Rightarrow> (pystr list \<times> string) list \<Rightarrow>
     (string \<times> EvalResults) list \<Rightarrow> (string \<times> EvalResults) list" where
  "skill_loop jdg ad task [] skill_results = skill_results"
| "skill_loop jdg ad task ((skill_list, name) # rest) skill_results =
     (if skill_list \<noteq> [] then
        skill_loop jdg ad task rest (skill_results @ [(name, judge_outputs jdg ad task skill_list)])
      else skill_loop jdg ad task rest skill_results)"

definition state_get_list :: "ReActConversationState \<Rightarrow> string \<Rightarrow> pystr list option" where
  "state_get_list st task =
     (if task = ''requirements'' then requirements st
      else if task = ''responsibilities'' then responsibilities st
      else None)"

text \<open>
  One round of the inner loop. For Python a \<^verbatim>\<open>SkillTypes\<close> model and a dict with keys
  are true, the empty dict and a missing key are false; a list is true when it is not
  empty. On a dumped dict \<^verbatim>\<open>state_values.hard\<close> raises \<^verbatim>\<open>AttributeError\<close>.
\<close>

definition eval_task ::
  "judge \<Rightarrow> ReActConversationState \<Rightarrow> string \<Rightarrow> evaluation \<Rightarrow> string \<Rightarrow> py_error + evaluation" where
  "eval_task jdg st ad result_evaluation task =
     (if task = ''skills'' then
        (case skills st of
           None \<Rightarrow> Inr result_evaluation
         | Some (SkillsDict None) \<Rightarrow> Inr result_evaluation
         | Some (SkillsDict (Some d)) \<Rightarrow> Inl AttributeError
         | Some (SkillsModel state_values) \<Rightarrow>
             Inr (result_evaluation(task \<mapsto>
               SkillResults (skill_loop jdg ad task
                 (zip [hard state_values, soft state_values, both state_values]
                      [''hard'', ''soft'', ''both'']) []))))
      else
        (case state_get_list st task of
           None \<Rightarrow> Inr result_evaluation
         | Some state_values \<Rightarrow>
             if state_values \<noteq> [] then
               Inr (result_evaluation(task \<mapsto> TaskResult (judge_outputs jdg ad task state_values)))
             else Inr result_evaluation))"

fun task_loop ::
  "judge \<Rightarrow> ReActConversationState \<Rightarrow> string \<Rightarrow> string list \<Rightarrow> evaluation \<Rightarrow>
     py_error + evaluation" where
  "task_loop jdg st ad [] result_evaluation = Inr result_evaluation"
| "task_loop jdg st ad (task # rest) result_evaluation =
     (case eval_task jdg st ad result_evaluation task of
        Inl e \<Rightarrow> Inl e
      | Inr result_evaluation' \<Rightarrow> task_loop jdg st ad rest result_evaluation')"

fun ad_loop ::
  "judge \<Rightarrow> ReActConversationState \<Rightarrow> string list \<Rightarrow> evaluation \<Rightarrow> py_error + evaluation" where
  "ad_loop jdg st [] result_evaluation = Inr result_evaluation"
| "ad_loop jdg st (ad # ads) result_evaluation =
     (case task_loop jdg st ad tasks result_evaluation of
        Inl e \<Rightarrow> Inl e
      | Inr result_evaluation' \<Rightarrow> ad_loop jdg st ads result_evaluation')"

definition eval_message :: string where
  "eval_message = ''G-Eval for creterion: '' @ eval_criteria @ '' was conducted successfuly!''"

definition evaluate_correctness :: "judge \<Rightarrow> ReActConversationState \<Rightarrow> py_error + Command" where
  "evaluate_correctness jdg st =
     (let ads = (case job_ads st of None \<Rightarrow> [] | Some xs \<Rightarrow> xs)
      in if ads = [] then Inr (only_message no_job_ads_message)
         else
           (case ad_loop jdg st (map ad_text ads) Map.empty of
              Inl e \<Rightarrow> Inl e
            | Inr result_evaluation \<Rightarrow>
                Inr \<lparr> upd_skills = None, upd_requirements = None, upd_responsibilities = None,
                      upd_evaluation = Some result_evaluation,
                      upd_messages = [eval_message] \<rparr>))"

text \<open>
  Notions for stating properties of the mapping: the results held by one value of the
  mapping; the value that one round of the inner loop stores for an ad and a task
  (nothing when the round skips the task); and a mapping with such a value put in.
\<close>

definition entry_results :: "eval_value \<Rightarrow> EvalResults list" where
  "entry_results v = (case v of SkillResults xs \<Rightarrow> map snd xs | TaskResult r \<Rightarrow> [r])"

definition expected_entry ::
  "judge \<Rightarrow> ReActConversationState \<Rightarrow> string \<Rightarrow> string \<Rightarrow> eval_value option" where
  "expected_entry jdg st ad task =
     (if task = ''skills'' then
        (case skills st of
           Some (SkillsModel sv) \<Rightarrow>
             Some (SkillResults (skill_loop jdg ad task
               (zip [hard sv, soft sv, both sv] [''hard'', ''soft'', ''both'']) []))
         | _ \<Rightarrow> None)
      else if task = ''requirements'' \<or> task = ''responsibilities'' then
        (case state_get_list st task of
           None \<Rightarrow> None
         | Some items \<Rightarrow>
             if items \<noteq> [] then Some (TaskResult (judge_outputs jdg ad task items)) else None)
      else None)"

definition put_entry :: "evaluation \<Rightarrow> string \<Rightarrow> eval_value option \<Rightarrow> evaluation" where
  "put_entry res task e = (case e of None \<Rightarrow> res | Some v \<Rightarrow> res(task \<mapsto> v))"

text \<open>The mapping after the three rounds that the inner loop makes for one ad.\<close>

definition ad_entries ::
  "judge \<Rightarrow> ReActConversationState \<Rightarrow> string \<Rightarrow> evaluation \<Rightarrow> evaluation" where
  "ad_entries jdg st ad res =
     put_entry
       (put_entry
          (put_entry res ''skills'' (expected_entry jdg st ad ''skills''))
          ''requirements'' (expected_entry jdg st ad ''requirements''))
       ''responsibilities'' (expected_entry jdg st ad ''responsibilities'')"

section \<open>Todo list (agent/todo\_utils.py, read\_todos)\<close>

text \<open>
  The three glyphs, as their UTF-8 bytes, and the text of a status. \<^verbatim>\<open>str.strip()\<close>
  only meets a line that starts with a digit and ends with an ASCII letter and a newline,
  so the ASCII whitespace bytes are all it can remove.
\<close>

definition is_space :: "char \<Rightarrow> bool" where
  "is_space c \<longleftrightarrow> (let n = (of_char c :: nat) in (9 \<le> n \<and> n \<le> 13) \<or> (28 \<le> n \<and> n \<le> 32))"

fun status_emoji :: "todo_status \<Rightarrow> string" where
  "status_emoji pending = [CHR 0xE2, CHR 0x8F, CHR 0xB3]"
| "status_emoji in_progress = [CHR 0xF0, CHR 0x9F, CHR 0x94, CHR 0x84]"
| "status_emoji completed = [CHR 0xE2, CHR 0x9C, CHR 0x85]"

fun status_text :: "todo_status \<Rightarrow> string" where
  "status_text pending = ''pending''"
| "status_text in_progress = ''in_progress''"
| "status_text completed = ''completed''"

definition todo_line :: "nat \<Rightarrow> Todo \<Rightarrow> string" where
  "todo_line i todo =
     string_of_nat i @ ''. '' @ status_emoji (status todo) @ '' '' @ content todo @ '': '' @
     status_text (status todo) @ [CHR 0x0A]"

text \<open>
  The loop \<^verbatim>\<open>for i, todo in enumerate(todos, 1)\<close>, whose body assigns the line of the
  item to \<^verbatim>\<open>result\<close>.
\<close>

fun todo_loop :: "(nat \<times> Todo) list \<Rightarrow> string \<Rightarrow> string" where
  "todo_loop [] result = result"
| "todo_loop ((i, todo) # rest) result = todo_loop rest (todo_line i todo)"

definition py_strip :: "string \<Rightarrow> string" where
  "py_strip s = rev (dropWhile is_space (rev (dropWhile is_space s)))"

definition no_todos_message :: string where
  "no_todos_message = ''Currently, there aren't any todos in the list.''"

definition todo_header :: string where
  "todo_header = ''Current TODO list:'' @ [CHR 0x0A]"

definition read_todos :: "ReActConversationState \<Rightarrow> string" where
  "read_todos st =
     (let todo_list = (case todos st of None \<Rightarrow> [] | Some xs \<Rightarrow> xs)
      in if todo_list = [] then no_todos_message
         else py_strip (todo_loop (List.enumerate 1 todo_list) todo_header))"

section \<open>Example states\<close>

definition base_state :: ReActConversationState where
  "base_state =
     \<lparr> messages = [], user_id = ''user'', skills = None, job_ads = None, todos = None,
       requirements = None, responsibilities = None \<rparr>"

text \<open>The scenario of the specification: \<open>sql\<close> is in both lists.\<close>

definition scenario_skills :: SkillTypes where
  "scenario_skills =
     \<lparr> hard = [ascii ''python'', ascii ''sql''], soft = [ascii ''sql'', ascii ''communication''],
       both = [] \<rparr>"

definition scenario_state :: ReActConversationState where
  "scenario_state = base_state\<lparr> skills := Some (SkillsModel scenario_skills) \<rparr>"

definition scenario_result :: SkillTypes where
  "scenario_result =
     \<lparr> hard = [ascii ''python''], soft = [ascii ''communication''], both = [ascii ''sql''] \<rparr>"

text \<open>A skill set whose \<open>both\<close> list already has a member from an earlier call.\<close>

definition prior_both_skills :: SkillTypes where
  "prior_both_skills =
     \<lparr> hard = [ascii ''sql''], soft = [ascii ''sql''], both = [ascii ''teamwork''] \<rparr>"

definition prior_both_state :: ReActConversationState where
  "prior_both_state = base_state\<lparr> skills := Some (SkillsModel prior_both_skills) \<rparr>"

text \<open>A state with one ad and no skill set; a state with a skill set and no ads.\<close>

definition one_ad_state :: ReActConversationState where
  "one_ad_state = base_state\<lparr> job_ads := Some [\<lparr> ad_text = ''We need SQL and teamwork.'' \<rparr>] \<rparr>"

definition no_ads_state :: ReActConversationState where
  "no_ads_state = scenario_state\<lparr> job_ads := Some [], requirements := Some [ascii ''degree''] \<rparr>"

definition two_todos_state :: ReActConversationState where
  "two_todos_state =
     base_state\<lparr> todos := Some [\<lparr> content = ''extract skills'', status = completed \<rparr>,
                                 \<lparr> content = ''evaluate'', status = pending \<rparr>] \<rparr>"

text \<open>Collaborators that find nothing.\<close>

definition silent_lx :: lx_extract where
  "silent_lx ad examples = []"

definition silent_chain :: "string \<Rightarrow> pystr list" where
  "silent_chain ad = []"

definition silent_judge :: judge where
  "silent_judge req = \<lparr> reasoning = [], score = [] \<rparr>"

text \<open>Collaborators and states for the extraction tools.\<close>

definition label :: "string \<Rightarrow> Extraction" where
  "label c =
     \<lparr> extraction_class = ascii c, extraction_text = ascii c,
       attributes = [(ascii ''skill_type'', ascii ''soft'')] \<rparr>"

definition two_ads_lx :: lx_extract where
  "two_ads_lx ad examples =
     (if ad = ''first ad'' then [label ''Communication''] else [label ''Teamwork''])"

definition two_ads_skills :: SkillTypes where
  "two_ads_skills = \<lparr> hard = [], soft = [ascii ''leadership''], both = [] \<rparr>"

definition two_ads_state :: ReActConversationState where
  "two_ads_state =
     base_state\<lparr> skills := Some (SkillsModel two_ads_skills),
                 job_ads := Some [\<lparr> ad_text = ''first ad'' \<rparr>, \<lparr> ad_text = ''second ad'' \<rparr>] \<rparr>"

definition spaced_lx :: lx_extract where
  "spaced_lx ad examples = [label ''Team  Work'']"

definition empty_skills_state :: ReActConversationState where
  "empty_skills_state =
     one_ad_state\<lparr> skills := Some (SkillsModel \<lparr> hard = [], soft = [], both = [] \<rparr>) \<rparr>"

text \<open>Judges and states for the evaluation tool.\<close>

definition echo_judge :: judge where
  "echo_judge req = \<lparr> reasoning = [req_job_ad req], score = [5] \<rparr>"

definition eight_judge :: judge where
  "eight_judge req = \<lparr> reasoning = [''stated in the ad''], score = [8] \<rparr>"

definition two_ads_eval_state :: ReActConversationState where
  "two_ads_eval_state =
     base_state\<lparr> job_ads := Some [\<lparr> ad_text = ''first ad'' \<rparr>, \<lparr> ad_text = ''second ad'' \<rparr>],
                 requirements := Some [ascii ''degree''] \<rparr>"

definition one_ad_eval_state :: ReActConversationState where
  "one_ad_eval_state = one_ad_state\<lparr> requirements := Some [ascii ''degree''] \<rparr>"

section \<open>Helper lemmas\<close>

lemma set_iter_ok_sorted: "set_iter_ok sorted_list_of_set"
  by (simp add: set_iter_ok_def)

lemma set_iter_okD: "set_iter_ok iter \<Longrightarrow> finite S \<Longrightarrow> set (iter S) = S \<and> distinct (iter S)"
  unfolding set_iter_ok_def by blast

lemma move_loop_ok:
  "distinct xs \<Longrightarrow> set xs \<subseteq> H \<inter> S \<Longrightarrow> move_loop xs (b, H, S) = Inr (b @ xs, H - set xs, S - set xs)"
proof (induction xs arbitrary: b H S)
  case Nil
  then show ?case by simp
next
  case (Cons x xs)
  have sub: "set xs \<subseteq> (H - {x}) \<inter> (S - {x})"
    using Cons.prems by auto
  have "move_loop (x # xs) (b, H, S) = move_loop xs (b @ [x], H - {x}, S - {x})"
    using Cons.prems by simp
  also have "\<dots> = Inr ((b @ [x]) @ xs, H - {x} - set xs, S - {x} - set xs)"
    using Cons.IH [OF _ sub] Cons.prems by simp
  finally have step: "move_loop (x # xs) (b, H, S) =
      Inr ((b @ [x]) @ xs, H - {x} - set xs, S - {x} - set xs)" .
  have "H - {x} - set xs = H - set (x # xs)" "S - {x} - set xs = S - set (x # xs)"
    by auto
  with step show ?case by simp
qed

lemma check_for_bothskills_overlap:
  assumes ok: "set_iter_ok iter"
    and sk: "skills st = Some (SkillsModel sk)"
    and ne: "set (hard sk) \<inter> set (soft sk) \<noteq> {}"
  shows "check_for_bothskills iter st =
     Inr \<lparr> upd_skills =
             Some (Some (sk \<lparr> hard := iter (set (hard sk) - set (soft sk)),
                              soft := iter (set (soft sk) - set (hard sk)),
                              both := iter (set (hard sk) \<inter> set (soft sk)) \<rparr>)),
           upd_requirements = None, upd_responsibilities = None, upd_evaluation = None,
           upd_messages =
             [found_message (length (iter (set (hard sk) \<inter> set (soft sk))))] \<rparr>"
proof -
  let ?I = "set (hard sk) \<inter> set (soft sk)"
  have fin: "finite ?I" by simp
  have it: "set (iter ?I) = ?I" "distinct (iter ?I)"
    using ok fin unfolding set_iter_ok_def by blast+
  have pos: "card ?I > 0"
    using ne fin by (simp add: card_gt_0_iff)
  have loop: "move_loop (iter ?I) ([], set (hard sk), set (soft sk)) =
      Inr ([] @ iter ?I, set (hard sk) - set (iter ?I), set (soft sk) - set (iter ?I))"
    by (rule move_loop_ok) (simp_all add: it)
  have d1: "set (hard sk) - ?I = set (hard sk) - set (soft sk)" by blast
  have d2: "set (soft sk) - ?I = set (soft sk) - set (hard sk)" by blast
  show ?thesis
    unfolding check_for_bothskills_def
    using pos loop by (simp add: sk it d1 d2 Let_def)
qed

lemma check_for_bothskills_unique:
  assumes sk: "skills st = Some (SkillsModel sk)"
    and em: "set (hard sk) \<inter> set (soft sk) = {}"
  shows "check_for_bothskills iter st = Inr (only_message unique_message)"
  unfolding check_for_bothskills_def by (simp add: sk em Let_def)

lemma check_for_bothskills_dumped:
  "skills st = Some (SkillsDict (Some d)) \<Longrightarrow> check_for_bothskills iter st = Inl AttributeError"
  by (simp add: check_for_bothskills_def)

lemma reconcile_overlap:
  assumes ok: "set_iter_ok iter"
    and sk: "skills st = Some (SkillsModel sk)"
    and ne: "set (hard sk) \<inter> set (soft sk) \<noteq> {}"
  shows "reconcile iter st =
     Inr (st\<lparr> messages := messages st @ [found_message (length (iter (set (hard sk) \<inter> set (soft sk))))],
              skills := Some (SkillsDict (Some (sk \<lparr> hard := iter (set (hard sk) - set (soft sk)),
                              soft := iter (set (soft sk) - set (hard sk)),
                              both := iter (set (hard sk) \<inter> set (soft sk)) \<rparr>))) \<rparr>)"
  using check_for_bothskills_overlap [OF ok sk ne]
  by (simp add: reconcile_def apply_update_def)

lemma reconcile_unique:
  assumes sk: "skills st = Some (SkillsModel sk)"
    and em: "set (hard sk) \<inter> set (soft sk) = {}"
  shows "reconcile iter st = Inr (st\<lparr> messages := messages st @ [unique_message] \<rparr>)"
  using check_for_bothskills_unique [OF sk em, of iter]
  by (simp add: reconcile_def apply_update_def only_message_def)

lemma reconcile_scenario:
  "reconcile sorted_list_of_set scenario_state =
     Inr (scenario_state\<lparr> messages := [found_message 1],
            skills := Some (SkillsDict (Some scenario_result)) \<rparr>)"
  by code_simp

lemma is_whitespace_space: "is_whitespace 32"
  by (simp add: is_whitespace_def)

lemma split_ws_words:
  "\<forall>c \<in> set w. \<not> is_whitespace c \<Longrightarrow> \<forall>x \<in> set (split_ws w s). word_ok x"
proof (induction s arbitrary: w)
  case Nil
  then show ?case by (simp add: word_ok_def)
next
  case (Cons c cs)
  show ?case
  proof (cases "is_whitespace c")
    case True
    have rest: "\<forall>x \<in> set (split_ws [] cs). word_ok x"
      by (rule Cons.IH) simp
    show ?thesis
      using True rest Cons.prems by (simp add: word_ok_def)
  next
    case False
    have "\<forall>x \<in> set (split_ws (w @ [c]) cs). word_ok x"
      by (rule Cons.IH) (use False Cons.prems in auto)
    then show ?thesis
      using False by simp
  qed
qed

lemma split_ws_append:
  "\<forall>c \<in> set x. \<not> is_whitespace c \<Longrightarrow> split_ws w (x @ rest) = split_ws (w @ x) rest"
  by (induction x arbitrary: w) auto

lemma split_join:
  "\<forall>x \<in> set ws. word_ok x \<Longrightarrow> split_ws [] (py_join [32] ws) = ws"
proof (induction "[32::nat]" ws rule: py_join.induct)
  case 1
  then show ?case by simp
next
  case (2 x)
  then have "split_ws [] (x @ []) = split_ws ([] @ x) []"
    by (intro split_ws_append) (simp add: word_ok_def)
  with 2 show ?case by (simp add: word_ok_def)
next
  case (3 x y ys)
  have x: "x \<noteq> []" "\<forall>c \<in> set x. \<not> is_whitespace c"
    using 3(2) by (simp_all add: word_ok_def)
  have "split_ws [] (x @ [32] @ py_join [32] (y # ys)) =
        split_ws ([] @ x) ([32] @ py_join [32] (y # ys))"
    by (rule split_ws_append) (rule x(2))
  also have "\<dots> = x # split_ws [] (py_join [32] (y # ys))"
    using x(1) by (simp add: is_whitespace_space)
  also have "\<dots> = x # y # ys"
    using 3 by simp
  finally show ?case by simp
qed

lemma collapsed_join:
  assumes "\<forall>x \<in> set ws. word_ok x"
  shows "ws_collapsed (py_join [32] ws)"
  using split_join [OF assms] by (simp add: ws_collapsed_def py_split_def)

lemma collapsed_split: "ws_collapsed (py_join [32] (py_split l))"
proof -
  have "\<forall>x \<in> set (py_split l). word_ok x"
    unfolding py_split_def by (rule split_ws_words) simp
  then show ?thesis by (rule collapsed_join)
qed

lemma soft_loop_model:
  "ads \<noteq> [] \<Longrightarrow>
   soft_loop iter lower lx ex (Some (SkillsModel sk)) ads acc =
     Inr (Some (sk\<lparr> soft := iter (set (soft sk @ map (normalise lower) (map extraction_class (lx (last ads) ex)))) \<rparr>),
          Some (iter (set (soft sk @ map (normalise lower) (map extraction_class (lx (last ads) ex))))))"
proof (induction ads arbitrary: acc)
  case Nil
  then show ?case by simp
next
  case (Cons ad ads)
  obtain d u where acc: "acc = (d, u)" by (cases acc)
  show ?case
  proof (cases "ads = []")
    case True
    then show ?thesis by (simp add: acc Let_def image_image)
  next
    case False
    then show ?thesis using Cons.IH [OF False] by (simp add: acc Let_def image_image)
  qed
qed

lemma hard_loop_model:
  "ads \<noteq> [] \<Longrightarrow>
   hard_loop iter lower lx ex (Some (SkillsModel sk)) ads acc =
     Inr (Some (sk\<lparr> hard := iter (set (hard sk @ map (normalise lower) (map extraction_class (lx (last ads) ex)))) \<rparr>),
          Some (iter (set (hard sk @ map (normalise lower) (map extraction_class (lx (last ads) ex))))))"
proof (induction ads arbitrary: acc)
  case Nil
  then show ?case by simp
next
  case (Cons ad ads)
  obtain d u where acc: "acc = (d, u)" by (cases acc)
  show ?case
  proof (cases "ads = []")
    case True
    then show ?thesis by (simp add: acc Let_def image_image)
  next
    case False
    then show ?thesis using Cons.IH [OF False] by (simp add: acc Let_def image_image)
  qed
qed

lemma extract_soft_skills_result:
  assumes sk: "skills st = Some (SkillsModel sk)" and ads: "job_ads st = Some ads" and ne: "ads \<noteq> []"
  shows "extract_soft_skills iter lower lx js st =
     Inr \<lparr> upd_skills = Some (Some (sk\<lparr> soft := iter (set (soft sk @ map (normalise lower)
               (map extraction_class (lx (ad_text (last ads)) (build_examples js))))) \<rparr>)),
           upd_requirements = None, upd_responsibilities = None, upd_evaluation = None,
           upd_messages = [soft_message (length (iter (set (soft sk @ map (normalise lower)
               (map extraction_class (lx (ad_text (last ads)) (build_examples js)))))))] \<rparr>"
proof -
  have m: "map ad_text ads \<noteq> []" using ne by simp
  show ?thesis
    unfolding extract_soft_skills_def
    using ne by (simp add: sk ads Let_def soft_loop_model [OF m] last_map)
qed

lemma extract_hard_skills_result:
  assumes sk: "skills st = Some (SkillsModel sk)" and ads: "job_ads st = Some ads" and ne: "ads \<noteq> []"
  shows "extract_hard_skills iter lower lx js st =
     Inr \<lparr> upd_skills = Some (Some (sk\<lparr> hard := iter (set (hard sk @ map (normalise lower)
               (map extraction_class (lx (ad_text (last ads)) (build_examples js))))) \<rparr>)),
           upd_requirements = None, upd_responsibilities = None, upd_evaluation = None,
           upd_messages = [hard_message (length (iter (set (hard sk @ map (normalise lower)
               (map extraction_class (lx (ad_text (last ads)) (build_examples js)))))))] \<rparr>"
proof -
  have m: "map ad_text ads \<noteq> []" using ne by simp
  show ?thesis
    unfolding extract_hard_skills_def
    using ne by (simp add: sk ads Let_def hard_loop_model [OF m] last_map)
qed

lemma tasks_mem: "''skills'' \<in> set tasks" "''requirements'' \<in> set tasks" "''responsibilities'' \<in> set tasks"
  by (simp_all add: tasks_def)

lemma eval_task_put:
  assumes t: "task \<in> set tasks"
    and nd: "\<forall>d. skills st \<noteq> Some (SkillsDict (Some d))"
  shows "eval_task jdg st ad res task = Inr (put_entry res task (expected_entry jdg st ad task))"
proof -
  consider "task = ''skills''" | "task = ''requirements''" | "task = ''responsibilities''"
    using t by (auto simp: tasks_def)
  then show ?thesis
  proof cases
    case 1
    show ?thesis
    proof (cases "skills st")
      case None
      then show ?thesis by (simp add: 1 eval_task_def expected_entry_def put_entry_def)
    next
      case (Some v)
      show ?thesis
      proof (cases v)
        case (SkillsModel sv)
        then show ?thesis by (simp add: 1 Some eval_task_def expected_entry_def put_entry_def)
      next
        case (SkillsDict d)
        then have "d = None" using nd Some by (cases d) auto
        then show ?thesis
          by (simp add: 1 Some SkillsDict eval_task_def expected_entry_def put_entry_def)
      qed
    qed
  next
    case 2
    then show ?thesis
      by (simp add: eval_task_def expected_entry_def put_entry_def state_get_list_def
          split: option.splits)
  next
    case 3
    then show ?thesis
      by (simp add: eval_task_def expected_entry_def put_entry_def state_get_list_def
          split: option.splits)
  qed
qed

lemma task_loop_entries:
  assumes nd: "\<forall>d. skills st \<noteq> Some (SkillsDict (Some d))"
  shows "task_loop jdg st ad tasks res = Inr (ad_entries jdg st ad res)"
proof -
  have "task_loop jdg st ad [''skills'', ''requirements'', ''responsibilities''] res =
      Inr (ad_entries jdg st ad res)"
    by (simp add: eval_task_put [OF tasks_mem(1) nd] eval_task_put [OF tasks_mem(2) nd]
        eval_task_put [OF tasks_mem(3) nd] ad_entries_def)
  then show ?thesis by (simp add: tasks_def)
qed

lemma ad_entries_apply:
  "ad_entries jdg st ad res k =
     (if k \<in> set tasks \<and> expected_entry jdg st ad k \<noteq> None then expected_entry jdg st ad k
      else res k)"
proof -
  consider "k = ''skills''" | "k = ''requirements''" | "k = ''responsibilities''" | "k \<notin> set tasks"
    by (auto simp: tasks_def)
  then show ?thesis
  proof cases
    case 1
    then show ?thesis
      by (auto simp: ad_entries_def put_entry_def tasks_mem split: option.splits)
  next
    case 2
    then show ?thesis
      by (auto simp: ad_entries_def put_entry_def tasks_mem split: option.splits)
  next
    case 3
    then show ?thesis
      by (auto simp: ad_entries_def put_entry_def tasks_mem split: option.splits)
  next
    case 4
    then have "k \<noteq> ''skills''" "k \<noteq> ''requirements''" "k \<noteq> ''responsibilities''"
      by (auto simp: tasks_def)
    with 4 show ?thesis
      by (auto simp: ad_entries_def put_entry_def split: option.splits)
  qed
qed

lemma expected_entry_None_iff:
  "expected_entry jdg st ad k = None \<longleftrightarrow> expected_entry jdg st ad' k = None"
  unfolding expected_entry_def by (simp split: option.splits skills_value.splits)

lemma ad_entries_overwrite:
  "ad_entries jdg st ad2 (ad_entries jdg st ad1 res) = ad_entries jdg st ad2 res"
proof
  fix k
  show "ad_entries jdg st ad2 (ad_entries jdg st ad1 res) k = ad_entries jdg st ad2 res k"
    using expected_entry_None_iff [of jdg st ad1 k ad2]
    by (auto simp: ad_entries_apply)
qed

lemma ad_loop_last:
  assumes nd: "\<forall>d. skills st \<noteq> Some (SkillsDict (Some d))"
  shows "ads \<noteq> [] \<Longrightarrow> ad_loop jdg st ads res = Inr (ad_entries jdg st (last ads) res)"
proof (induction ads arbitrary: res)
  case Nil
  then show ?case by simp
next
  case (Cons ad ads)
  show ?case
  proof (cases "ads = []")
    case True
    then show ?thesis by (simp add: task_loop_entries [OF nd])
  next
    case False
    then show ?thesis
      using Cons.IH [OF False, of "ad_entries jdg st ad res"]
      by (simp add: task_loop_entries [OF nd] ad_entries_overwrite)
  qed
qed

lemma ad_loop_dumped:
  assumes d: "skills st = Some (SkillsDict (Some d))" and ne: "ads \<noteq> []"
  shows "ad_loop jdg st ads res = Inl AttributeError"
proof -
  obtain ad rest where ads: "ads = ad # rest" using ne by (cases ads) auto
  have "task_loop jdg st ad tasks res = Inl AttributeError"
    by (simp add: tasks_def eval_task_def d)
  then show ?thesis by (simp add: ads)
qed

lemma evaluate_correctness_result:
  assumes ads: "job_ads st = Some ads" and ne: "ads \<noteq> []"
    and nd: "\<forall>d. skills st \<noteq> Some (SkillsDict (Some d))"
  shows "evaluate_correctness jdg st =
     Inr \<lparr> upd_skills = None, upd_requirements = None, upd_responsibilities = None,
           upd_evaluation = Some (ad_entries jdg st (ad_text (last ads)) Map.empty),
           upd_messages = [eval_message] \<rparr>"
proof -
  have m: "map ad_text ads \<noteq> []" using ne by simp
  show ?thesis
    using ne by (simp add: evaluate_correctness_def ads ad_loop_last [OF nd m] last_map)
qed

lemma evaluate_correctness_dumped:
  assumes ads: "job_ads st = Some ads" and ne: "ads \<noteq> []"
    and d: "skills st = Some (SkillsDict (Some d))"
  shows "evaluate_correctness jdg st = Inl AttributeError"
proof -
  have m: "map ad_text ads \<noteq> []" using ne by simp
  show ?thesis
    using ne by (simp add: evaluate_correctness_def ads ad_loop_dumped [OF d m])
qed

lemma skill_loop_map:
  "skill_loop jdg ad task pairs acc =
     acc @ map (\<lambda>(sl, name). (name, judge_outputs jdg ad task sl))
             (filter (\<lambda>(sl, name). sl \<noteq> []) pairs)"
  by (induction pairs arbitrary: acc) auto

lemma judge_outputs_form:
  "judge_outputs jdg ad task items =
     \<lparr> reasoning = reasoning (jdg (format_prompt ad items task)),
       score = map (\<lambda>raw. raw / real_of_int (snd score_range))
                 (score (jdg (format_prompt ad items task))) \<rparr>"
  by (simp add: judge_outputs_def Let_def)

lemma expected_requirements:
  "expected_entry jdg st ad ''requirements'' =
     (case requirements st of None \<Rightarrow> None
      | Some items \<Rightarrow> if items \<noteq> [] then Some (TaskResult (judge_outputs jdg ad ''requirements'' items)) else None)"
  by (simp add: expected_entry_def state_get_list_def)

lemma expected_responsibilities:
  "expected_entry jdg st ad ''responsibilities'' =
     (case responsibilities st of None \<Rightarrow> None
      | Some items \<Rightarrow> if items \<noteq> [] then Some (TaskResult (judge_outputs jdg ad ''responsibilities'' items)) else None)"
  by (simp add: expected_entry_def state_get_list_def)

lemma expected_skills:
  "expected_entry jdg st ad ''skills'' =
     (case skills st of
        Some (SkillsModel sv) \<Rightarrow>
          Some (SkillResults (map (\<lambda>(sl, name). (name, judge_outputs jdg ad ''skills'' sl))
             (filter (\<lambda>(sl, name). sl \<noteq> [])
                [(hard sv, ''hard''), (soft sv, ''soft''), (both sv, ''both'')])))
      | _ \<Rightarrow> None)"
  by (simp add: expected_entry_def skill_loop_map split: option.splits skills_value.splits)

lemma requirements_only_map:
  assumes st: "skills st = None" "responsibilities st = None" "requirements st = Some items"
    and items: "items \<noteq> []"
  shows "ad_entries jdg st ad Map.empty =
     [''requirements'' \<mapsto> TaskResult (judge_outputs jdg ad ''requirements'' items)]"
  by (simp add: ad_entries_def put_entry_def expected_skills expected_requirements
      expected_responsibilities st items)

lemma todo_loop_last:
  "xs \<noteq> [] \<Longrightarrow> todo_loop xs r = todo_line (fst (last xs)) (snd (last xs))"
proof (induction xs arbitrary: r)
  case Nil
  then show ?case by simp
next
  case (Cons x xs)
  obtain i t where x: "x = (i, t)" by (cases x)
  show ?case
  proof (cases "xs = []")
    case True
    then show ?thesis by (simp add: x)
  next
    case False
    then show ?thesis using Cons.IH [OF False] by (simp add: x)
  qed
qed

lemma enumerate_last:
  "xs \<noteq> [] \<Longrightarrow> last (List.enumerate n xs) = (n + length xs - 1, last xs)"
proof (induction xs arbitrary: n)
  case Nil
  then show ?case by simp
next
  case (Cons x xs)
  show ?case
  proof (cases "xs = []")
    case True
    then show ?thesis by simp
  next
    case False
    then have "List.enumerate (Suc n) xs \<noteq> []"
      by (cases xs) simp_all
    then show ?thesis
      using Cons.IH [OF False, of "Suc n"] False by simp
  qed
qed

lemma read_todos_last:
  assumes "todos st = Some xs" and "xs \<noteq> []"
  shows "read_todos st = py_strip (todo_line (length xs) (last xs))"
proof -
  have ne: "List.enumerate (Suc 0) xs \<noteq> []"
    using assms(2) by (cases xs) simp_all
  show ?thesis
    using assms by (simp add: read_todos_def todo_loop_last [OF ne] enumerate_last)
qed

lemma read_todos_empty:
  "todos st = None \<or> todos st = Some [] \<Longrightarrow> read_todos st = no_todos_message"
  by (auto simp: read_todos_def)

section \<open>Reconciliation: the claims\<close>

text \<open>
  Claim C1. Whenever the reconciliation step runs on a state that holds a skill set (the
  \<^verbatim>\<open>SkillTypes\<close> model of the schema), it returns normally, and every string that was
  in both the hard and the soft list before the step is in the both list and in neither
  the hard nor the soft list afterwards; so the hard and the soft list of the resulting
  skill set share no member. This holds for every admissible iteration order of Python's
  sets.
\<close>

theorem reconcile_dedup:
  assumes ok: "set_iter_ok iter" and sk: "skills st = Some (SkillsModel sk)"
  shows "\<exists>st' sk'. reconcile iter st = Inr st' \<and> current_skills st' = Some sk' \<and>
           (\<forall>s \<in> set (hard sk) \<inter> set (soft sk).
              s \<in> set (both sk') \<and> s \<notin> set (hard sk') \<and> s \<notin> set (soft sk')) \<and>
           set (hard sk') \<inter> set (soft sk') = {}"
proof (cases "set (hard sk) \<inter> set (soft sk) = {}")
  case True
  then show ?thesis
    using reconcile_unique [OF sk True, of iter]
    by (simp add: sk current_skills_def skill_lists_def)
next
  case False
  show ?thesis
    using reconcile_overlap [OF ok sk False] set_iter_okD [OF ok]
    by (auto simp: current_skills_def skill_lists_def)
qed

theorem reconcile_dedup_witness:
  "set_iter_ok sorted_list_of_set \<and> skills scenario_state = Some (SkillsModel scenario_skills) \<and>
   ascii ''sql'' \<in> set (hard scenario_skills) \<inter> set (soft scenario_skills) \<and>
   (\<exists>st' sk'. reconcile sorted_list_of_set scenario_state = Inr st' \<and> current_skills st' = Some sk' \<and>
      (\<forall>s \<in> set (hard scenario_skills) \<inter> set (soft scenario_skills).
         s \<in> set (both sk') \<and> s \<notin> set (hard sk') \<and> s \<notin> set (soft sk')) \<and>
      set (hard sk') \<inter> set (soft sk') = {})"
proof -
  have sk: "skills scenario_state = Some (SkillsModel scenario_skills)"
    by (simp add: scenario_state_def)
  have mem: "ascii ''sql'' \<in> set (hard scenario_skills) \<inter> set (soft scenario_skills)"
    by (simp add: scenario_skills_def)
  show ?thesis
    using reconcile_dedup [OF set_iter_ok_sorted sk] set_iter_ok_sorted sk mem by blast
qed

text \<open>
  Claim C2, as stated, fails: the step does not keep the members of the both list. With
  \<open>sql\<close> in the hard and the soft list and \<open>teamwork\<close> in the both list, the both list
  after the step is \<open>[sql]\<close>: \<open>teamwork\<close> is gone.
\<close>

theorem reconcile_both_counterexample:
  "ascii ''teamwork'' \<in> set (both prior_both_skills) \<and>
   reconcile sorted_list_of_set prior_both_state =
     Inr (prior_both_state\<lparr> messages := [found_message 1],
            skills := Some (SkillsDict (Some \<lparr> hard = [], soft = [], both = [ascii ''sql''] \<rparr>)) \<rparr>) \<and>
   ascii ''teamwork'' \<notin> set (both \<lparr> hard = [], soft = [], both = [ascii ''sql''] \<rparr>)"
  by code_simp

text \<open>
  Claim C2, amended. The step replaces the both list: when the hard and the soft list
  share no member, the both list stays as it was; when they share a member, the both
  list after the step holds exactly the shared members, each once, whatever it held
  before.
\<close>

theorem reconcile_both_replaced:
  assumes ok: "set_iter_ok iter" and sk: "skills st = Some (SkillsModel sk)"
  shows "\<exists>st' sk'. reconcile iter st = Inr st' \<and> current_skills st' = Some sk' \<and>
           (if set (hard sk) \<inter> set (soft sk) = {} then both sk' = both sk
            else set (both sk') = set (hard sk) \<inter> set (soft sk) \<and> distinct (both sk'))"
proof (cases "set (hard sk) \<inter> set (soft sk) = {}")
  case True
  then show ?thesis
    using reconcile_unique [OF sk True, of iter]
    by (simp add: sk current_skills_def skill_lists_def)
next
  case False
  show ?thesis
    using reconcile_overlap [OF ok sk False] set_iter_okD [OF ok] False
    by (auto simp: current_skills_def skill_lists_def)
qed

theorem reconcile_both_replaced_witness:
  "set_iter_ok sorted_list_of_set \<and> skills prior_both_state = Some (SkillsModel prior_both_skills) \<and>
   set (hard prior_both_skills) \<inter> set (soft prior_both_skills) = {ascii ''sql''} \<and>
   (\<exists>st' sk'. reconcile sorted_list_of_set prior_both_state = Inr st' \<and>
      current_skills st' = Some sk' \<and>
      set (both sk') = {ascii ''sql''} \<and> distinct (both sk'))"
proof -
  have sk: "skills prior_both_state = Some (SkillsModel prior_both_skills)"
    by (simp add: prior_both_state_def)
  have inter: "set (hard prior_both_skills) \<inter> set (soft prior_both_skills) = {ascii ''sql''}"
    by (simp add: prior_both_skills_def)
  show ?thesis
    using reconcile_both_replaced [OF set_iter_ok_sorted sk] set_iter_ok_sorted sk inter
    by auto
qed

text \<open>
  Claim C3 says that a second reconciliation right after the first is a no-op. The first
  run on the scenario of the specification returns a patch whose skills entry is the
  dumped dict; the driver puts it in place of the model. The second run then calls
  \<^verbatim>\<open>model_copy\<close> on a dict and raises \<^verbatim>\<open>AttributeError\<close> instead of returning.
\<close>

theorem reconcile_twice_raises:
  "reconcile sorted_list_of_set scenario_state =
     Inr (scenario_state\<lparr> messages := [found_message 1],
            skills := Some (SkillsDict (Some scenario_result)) \<rparr>) \<and>
   reconcile sorted_list_of_set
     (scenario_state\<lparr> messages := [found_message 1],
        skills := Some (SkillsDict (Some scenario_result)) \<rparr>) = Inl AttributeError"
  by code_simp

section \<open>Missing input and missing skill set: the claims\<close>

text \<open>
  Claim C8 says that extraction and reconciliation skip silently when the state has no
  skill set. The code tests for the skill set and then uses a variable that only the
  tested branch binds: with one ad and no skill set, both extraction tools and the
  reconciliation tool raise \<^verbatim>\<open>UnboundLocalError\<close> instead of returning.
\<close>

theorem missing_skills_raises:
  "skills one_ad_state = None \<and>
   extract_soft_skills sorted_list_of_set ascii_lower silent_lx [] one_ad_state = Inl UnboundLocalError \<and>
   extract_hard_skills sorted_list_of_set ascii_lower silent_lx [] one_ad_state = Inl UnboundLocalError \<and>
   check_for_bothskills sorted_list_of_set one_ad_state = Inl UnboundLocalError"
  by (simp add: one_ad_state_def base_state_def extract_soft_skills_def extract_hard_skills_def
      check_for_bothskills_def silent_lx_def build_examples_def)

text \<open>
  Claim C9. With an empty list of job ads, each of the four extraction tools and the
  evaluation tool returns a patch that holds one message and nothing else; applying it
  leaves the skill set, the requirement list and the responsibility list as they were
  and adds exactly that message to the log.
\<close>

theorem empty_job_ads_short_circuit:
  assumes "job_ads st = Some []"
  shows "extract_soft_skills iter lower lx soft_json st = Inr (only_message no_job_ads_message) \<and>
         extract_hard_skills iter lower lx hard_json st = Inr (only_message no_job_ads_message) \<and>
         extract_requirements chain st = Inr (only_message no_job_ads_message) \<and>
         extract_responsibilities chain st = Inr (only_message no_job_ads_message) \<and>
         evaluate_correctness jdg st = Inr (only_message no_job_ads_message) \<and>
         upd_messages (only_message no_job_ads_message) = [no_job_ads_message] \<and>
         skills (apply_update st (only_message no_job_ads_message)) = skills st \<and>
         requirements (apply_update st (only_message no_job_ads_message)) = requirements st \<and>
         responsibilities (apply_update st (only_message no_job_ads_message)) = responsibilities st \<and>
         messages (apply_update st (only_message no_job_ads_message)) =
           messages st @ [no_job_ads_message]"
  using assms
  by (simp add: extract_soft_skills_def extract_hard_skills_def extract_requirements_def
      extract_responsibilities_def evaluate_correctness_def apply_update_def only_message_def)

theorem empty_job_ads_short_circuit_witness:
  "job_ads no_ads_state = Some [] \<and>
   extract_soft_skills sorted_list_of_set ascii_lower silent_lx [] no_ads_state =
     Inr (only_message no_job_ads_message) \<and>
   evaluate_correctness silent_judge no_ads_state = Inr (only_message no_job_ads_message) \<and>
   extract_responsibilities silent_chain no_ads_state = Inr (only_message no_job_ads_message) \<and>
   skills (apply_update no_ads_state (only_message no_job_ads_message)) =
     Some (SkillsModel scenario_skills) \<and>
   requirements (apply_update no_ads_state (only_message no_job_ads_message)) =
     Some [ascii ''degree''] \<and>
   messages (apply_update no_ads_state (only_message no_job_ads_message)) = [no_job_ads_message]"
proof -
  have h: "job_ads no_ads_state = Some []"
    by (simp add: no_ads_state_def)
  show ?thesis
    using empty_job_ads_short_circuit
      [OF h, of sorted_list_of_set ascii_lower silent_lx "[]" "[]" silent_chain silent_judge]
    by (simp add: no_ads_state_def scenario_state_def base_state_def)
qed

section \<open>Todo list: the claim\<close>

text \<open>
  Claim C5 says that every item of the todo list appears in the rendering. The loop
  assigns each line to the result instead of appending it: with two items the rendering
  is the line of the second item alone; the first item and the header are lost.
\<close>

theorem read_todos_last_only:
  "read_todos two_todos_state = ''2. '' @ status_emoji pending @ '' evaluate: pending''"
  by code_simp

section \<open>Skill extraction: the claims\<close>

text \<open>
  Claim C4 says that the labels of every supplied job ad are joined into the existing
  list. Every round of the loop starts again from the skill set of the incoming state,
  so only the labels of the last ad reach the result: with two ads whose labels are
  \<open>Communication\<close> and \<open>Teamwork\<close> and an existing soft list \<open>[leadership]\<close>, the new
  soft list is \<open>[leadership, teamwork]\<close>; \<open>communication\<close> from the first ad is lost.
\<close>

theorem extraction_drops_earlier_ads:
  "extract_soft_skills sorted_list_of_set ascii_lower two_ads_lx [] two_ads_state =
     Inr \<lparr> upd_skills =
             Some (Some \<lparr> hard = [], soft = [ascii ''leadership'', ascii ''teamwork''], both = [] \<rparr>),
           upd_requirements = None, upd_responsibilities = None, upd_evaluation = None,
           upd_messages = [soft_message 2] \<rparr> \<and>
   normalise ascii_lower (extraction_class (hd (two_ads_lx ''first ad'' (build_examples [])))) =
     ascii ''communication'' \<and>
   ascii ''communication'' \<notin> set [ascii ''leadership'', ascii ''teamwork'']"
proof -
  let ?ads = "[\<lparr> ad_text = ''first ad'' \<rparr>, \<lparr> ad_text = ''second ad'' \<rparr>]"
  have sk: "skills two_ads_state = Some (SkillsModel two_ads_skills)"
    and ads: "job_ads two_ads_state = Some ?ads"
    by (simp_all add: two_ads_state_def base_state_def)
  have r: "extract_soft_skills sorted_list_of_set ascii_lower two_ads_lx [] two_ads_state =
     Inr \<lparr> upd_skills = Some (Some (two_ads_skills\<lparr> soft := sorted_list_of_set (set (soft two_ads_skills @
               map (normalise ascii_lower) (map extraction_class (two_ads_lx (ad_text (last ?ads)) (build_examples []))))) \<rparr>)),
           upd_requirements = None, upd_responsibilities = None, upd_evaluation = None,
           upd_messages = [soft_message (length (sorted_list_of_set (set (soft two_ads_skills @
               map (normalise ascii_lower) (map extraction_class (two_ads_lx (ad_text (last ?ads)) (build_examples [])))))))] \<rparr>"
    by (rule extract_soft_skills_result [OF sk ads]) simp
  have e: "sorted_list_of_set (set (soft two_ads_skills @
               map (normalise ascii_lower) (map extraction_class (two_ads_lx (ad_text (last ?ads)) (build_examples []))))) =
           [ascii ''leadership'', ascii ''teamwork'']"
    by code_simp
  have n: "normalise ascii_lower (extraction_class (hd (two_ads_lx ''first ad'' (build_examples [])))) =
      ascii ''communication''"
    by code_simp
  have m: "ascii ''communication'' \<notin> set [ascii ''leadership'', ascii ''teamwork'']"
    by code_simp
  show ?thesis
    unfolding r e n using m by (simp add: two_ads_skills_def numeral_2_eq_2)
qed

text \<open>
  Claim C6, as stated, fails: a label without an underscore is only lower-cased. The
  label \<open>Team  Work\<close> (two spaces) is stored as \<open>team  work\<close>, whose whitespace is not
  collapsed.
\<close>

theorem stored_label_counterexample:
  "extract_soft_skills sorted_list_of_set ascii_lower spaced_lx [] empty_skills_state =
     Inr \<lparr> upd_skills = Some (Some \<lparr> hard = [], soft = [ascii ''team  work''], both = [] \<rparr>),
           upd_requirements = None, upd_responsibilities = None, upd_evaluation = None,
           upd_messages = [soft_message 1] \<rparr> \<and>
   \<not> ws_collapsed (ascii ''team  work'')"
proof -
  let ?ads = "[\<lparr> ad_text = ''We need SQL and teamwork.'' \<rparr>]"
  let ?sk = "\<lparr> hard = [], soft = [], both = [] \<rparr>"
  have sk: "skills empty_skills_state = Some (SkillsModel ?sk)"
    and ads: "job_ads empty_skills_state = Some ?ads"
    by (simp_all add: empty_skills_state_def one_ad_state_def base_state_def)
  have r: "extract_soft_skills sorted_list_of_set ascii_lower spaced_lx [] empty_skills_state =
     Inr \<lparr> upd_skills = Some (Some (?sk\<lparr> soft := sorted_list_of_set (set (soft ?sk @
               map (normalise ascii_lower) (map extraction_class (spaced_lx (ad_text (last ?ads)) (build_examples []))))) \<rparr>)),
           upd_requirements = None, upd_responsibilities = None, upd_evaluation = None,
           upd_messages = [soft_message (length (sorted_list_of_set (set (soft ?sk @
               map (normalise ascii_lower) (map extraction_class (spaced_lx (ad_text (last ?ads)) (build_examples [])))))))] \<rparr>"
    by (rule extract_soft_skills_result [OF sk ads]) simp
  have e: "sorted_list_of_set (set (soft ?sk @
               map (normalise ascii_lower) (map extraction_class (spaced_lx (ad_text (last ?ads)) (build_examples []))))) =
           [ascii ''team  work'']"
    by code_simp
  have c: "\<not> ws_collapsed (ascii ''team  work'')"
    by (simp add: ws_collapsed_def py_split_def ascii_def is_whitespace_def)
  show ?thesis
    unfolding r e using c by simp
qed

text \<open>
  Claim C6, amended. When an extraction step runs on a state with a skill set and at
  least one ad, it returns normally, and every label of the new soft (hard) list is either
  a label of the old list or the normalised form of a label the collaborator returned for
  one of the ads. Normalising a label that contains an underscore cuts it at whitespace,
  joins the pieces with single spaces, so that its whitespace is collapsed, and
  lower-cases the result; normalising a label without an underscore only lower-cases it.
  This holds for every label and whatever \<^verbatim>\<open>str.lower()\<close> does.
\<close>

theorem stored_labels_normalised:
  assumes ok: "set_iter_ok iter"
    and sk: "skills st = Some (SkillsModel sk)"
    and ads: "job_ads st = Some ads" and ne: "ads \<noteq> []"
  shows "(\<exists>cmd sk'. extract_soft_skills iter lower lx js st = Inr cmd \<and>
            upd_skills cmd = Some (Some sk') \<and>
            (\<forall>x \<in> set (soft sk'). x \<in> set (soft sk) \<or>
               (\<exists>ad \<in> set ads. \<exists>e \<in> set (lx (ad_text ad) (build_examples js)).
                  x = normalise lower (extraction_class e)))) \<and>
         (\<exists>cmd sk'. extract_hard_skills iter lower lx js st = Inr cmd \<and>
            upd_skills cmd = Some (Some sk') \<and>
            (\<forall>x \<in> set (hard sk'). x \<in> set (hard sk) \<or>
               (\<exists>ad \<in> set ads. \<exists>e \<in> set (lx (ad_text ad) (build_examples js)).
                  x = normalise lower (extraction_class e)))) \<and>
         (\<forall>l. (95 \<in> set l \<longrightarrow>
                 normalise lower l = lower (py_join [32] (py_split l)) \<and>
                 ws_collapsed (py_join [32] (py_split l))) \<and>
              (95 \<notin> set l \<longrightarrow> normalise lower l = lower l))"
proof -
  have l: "last ads \<in> set ads" using ne by simp
  have it: "\<And>S. finite S \<Longrightarrow> set (iter S) = S"
    using set_iter_okD [OF ok] by blast
  have a: "\<exists>cmd sk'. extract_soft_skills iter lower lx js st = Inr cmd \<and>
            upd_skills cmd = Some (Some sk') \<and>
            (\<forall>x \<in> set (soft sk'). x \<in> set (soft sk) \<or>
               (\<exists>ad \<in> set ads. \<exists>e \<in> set (lx (ad_text ad) (build_examples js)).
                  x = normalise lower (extraction_class e)))"
    using l by (auto simp: extract_soft_skills_result [OF sk ads ne] it)
  have b: "\<exists>cmd sk'. extract_hard_skills iter lower lx js st = Inr cmd \<and>
            upd_skills cmd = Some (Some sk') \<and>
            (\<forall>x \<in> set (hard sk'). x \<in> set (hard sk) \<or>
               (\<exists>ad \<in> set ads. \<exists>e \<in> set (lx (ad_text ad) (build_examples js)).
                  x = normalise lower (extraction_class e)))"
    using l by (auto simp: extract_hard_skills_result [OF sk ads ne] it)
  have c: "\<forall>l. (95 \<in> set l \<longrightarrow>
                 normalise lower l = lower (py_join [32] (py_split l)) \<and>
                 ws_collapsed (py_join [32] (py_split l))) \<and>
              (95 \<notin> set l \<longrightarrow> normalise lower l = lower l)"
    using collapsed_split by (simp add: normalise_def)
  from a b c show ?thesis by blast
qed

theorem stored_labels_normalised_witness:
  "set_iter_ok sorted_list_of_set \<and> skills two_ads_state = Some (SkillsModel two_ads_skills) \<and>
   job_ads two_ads_state = Some [\<lparr> ad_text = ''first ad'' \<rparr>, \<lparr> ad_text = ''second ad'' \<rparr>] \<and>
   (\<exists>cmd sk'. extract_soft_skills sorted_list_of_set ascii_lower two_ads_lx [] two_ads_state = Inr cmd \<and>
      upd_skills cmd = Some (Some sk') \<and>
      (\<forall>x \<in> set (soft sk'). x \<in> set (soft two_ads_skills) \<or>
         (\<exists>ad \<in> set [\<lparr> ad_text = ''first ad'' \<rparr>, \<lparr> ad_text = ''second ad'' \<rparr>].
            \<exists>e \<in> set (two_ads_lx (ad_text ad) (build_examples [])).
              x = normalise ascii_lower (extraction_class e)))) \<and>
   95 \<in> set (ascii ''Problem_Solving  Skills '') \<and>
   normalise ascii_lower (ascii ''Problem_Solving  Skills '') =
     ascii_lower (py_join [32] (py_split (ascii ''Problem_Solving  Skills ''))) \<and>
   ws_collapsed (py_join [32] (py_split (ascii ''Problem_Solving  Skills ''))) \<and>
   py_join [32] (py_split (ascii ''Problem_Solving  Skills '')) = ascii ''Problem_Solving Skills'' \<and>
   95 \<notin> set (ascii ''Team  Work'') \<and>
   normalise ascii_lower (ascii ''Team  Work'') = ascii_lower (ascii ''Team  Work'')"
proof -
  have sk: "skills two_ads_state = Some (SkillsModel two_ads_skills)"
    and ads: "job_ads two_ads_state = Some [\<lparr> ad_text = ''first ad'' \<rparr>, \<lparr> ad_text = ''second ad'' \<rparr>]"
    by (simp_all add: two_ads_state_def base_state_def)
  have ne: "[\<lparr> ad_text = ''first ad'' \<rparr>, \<lparr> ad_text = ''second ad'' \<rparr>] \<noteq> []"
    by simp
  have u: "95 \<in> set (ascii ''Problem_Solving  Skills '')" "95 \<notin> set (ascii ''Team  Work'')"
    by (simp_all add: ascii_def)
  have j: "py_join [32] (py_split (ascii ''Problem_Solving  Skills '')) = ascii ''Problem_Solving Skills''"
    by (simp add: py_split_def ascii_def is_whitespace_def)
  show ?thesis
    using stored_labels_normalised [OF set_iter_ok_sorted sk ads ne, of ascii_lower two_ads_lx "[]"]
      set_iter_ok_sorted sk ads u j
    by blast
qed

section \<open>Evaluation: the claims\<close>

text \<open>
  Claim C7, as stated, fails: the mapping is keyed by the task alone, so it cannot hold
  one entry per pair of ad and task. With two ads and one requirement, the mapping
  returned has one entry; the judgement of the first ad is not among its values.
\<close>

theorem evaluation_pairs_counterexample:
  "evaluate_correctness echo_judge two_ads_eval_state =
     Inr \<lparr> upd_skills = None, upd_requirements = None, upd_responsibilities = None,
           upd_evaluation =
             Some [''requirements'' \<mapsto> TaskResult \<lparr> reasoning = [''second ad''], score = [1 / 2] \<rparr>],
           upd_messages = [eval_message] \<rparr> \<and>
   judge_outputs echo_judge ''first ad'' ''requirements'' [ascii ''degree''] =
     \<lparr> reasoning = [''first ad''], score = [1 / 2] \<rparr> \<and>
   TaskResult \<lparr> reasoning = [''first ad''], score = [1 / 2] \<rparr> \<notin>
     ran [''requirements'' \<mapsto> TaskResult \<lparr> reasoning = [''second ad''], score = [1 / 2] \<rparr>]"
proof -
  let ?ads = "[\<lparr> ad_text = ''first ad'' \<rparr>, \<lparr> ad_text = ''second ad'' \<rparr>]"
  have ads: "job_ads two_ads_eval_state = Some ?ads"
    and st: "skills two_ads_eval_state = None" "responsibilities two_ads_eval_state = None"
      "requirements two_ads_eval_state = Some [ascii ''degree'']"
    by (simp_all add: two_ads_eval_state_def base_state_def)
  have ne: "?ads \<noteq> []" by simp
  have nd: "\<forall>d. skills two_ads_eval_state \<noteq> Some (SkillsDict (Some d))"
    by (simp add: st)
  have j1: "judge_outputs echo_judge ''first ad'' ''requirements'' [ascii ''degree''] =
      \<lparr> reasoning = [''first ad''], score = [1 / 2] \<rparr>"
    by (simp add: judge_outputs_form echo_judge_def format_prompt_def score_range_def)
  have j2: "judge_outputs echo_judge ''second ad'' ''requirements'' [ascii ''degree''] =
      \<lparr> reasoning = [''second ad''], score = [1 / 2] \<rparr>"
    by (simp add: judge_outputs_form echo_judge_def format_prompt_def score_range_def)
  have m: "ad_entries echo_judge two_ads_eval_state (ad_text (last ?ads)) Map.empty =
      [''requirements'' \<mapsto> TaskResult \<lparr> reasoning = [''second ad''], score = [1 / 2] \<rparr>]"
    using requirements_only_map [OF st, of echo_judge "''second ad''"] by (simp add: j2)
  show ?thesis
    unfolding evaluate_correctness_result [OF ads ne nd] m j1
    by simp
qed

text \<open>
  Claim C7, amended. With at least one job ad and a skill set that is a model or missing,
  the evaluation step returns a mapping keyed by task only, with no key outside the
  three tasks. For requirements and for responsibilities: when the list is present and
  not empty, the entry is the reasoning and the normalised scores of judging that list
  against one of the supplied ads; when the list is missing or empty, there is no entry.
  For skills: when the skill set has a list that is not empty, the entry is a list with
  one pair of sub-type name and result for each of hard, soft and both whose list is not
  empty, in that order, judged against one of the supplied ads; when the skill set is
  missing, there is no entry.
\<close>

theorem evaluation_keyed_by_task:
  assumes ads: "job_ads st = Some ads" and ne: "ads \<noteq> []"
    and nd: "\<forall>d. skills st \<noteq> Some (SkillsDict (Some d))"
  shows "\<exists>cmd ev. evaluate_correctness jdg st = Inr cmd \<and> upd_evaluation cmd = Some ev \<and>
           upd_messages cmd = [eval_message] \<and>
           dom ev \<subseteq> set tasks \<and>
           (\<forall>items. requirements st = Some items \<and> items \<noteq> [] \<longrightarrow>
              (\<exists>ad \<in> set ads. ev ''requirements'' =
                 Some (TaskResult (judge_outputs jdg (ad_text ad) ''requirements'' items)))) \<and>
           (requirements st = None \<or> requirements st = Some [] \<longrightarrow> ev ''requirements'' = None) \<and>
           (\<forall>items. responsibilities st = Some items \<and> items \<noteq> [] \<longrightarrow>
              (\<exists>ad \<in> set ads. ev ''responsibilities'' =
                 Some (TaskResult (judge_outputs jdg (ad_text ad) ''responsibilities'' items)))) \<and>
           (responsibilities st = None \<or> responsibilities st = Some [] \<longrightarrow>
              ev ''responsibilities'' = None) \<and>
           (\<forall>sv. skills st = Some (SkillsModel sv) \<and>
                 (hard sv \<noteq> [] \<or> soft sv \<noteq> [] \<or> both sv \<noteq> []) \<longrightarrow>
              (\<exists>ad \<in> set ads. ev ''skills'' =
                 Some (SkillResults
                   (map (\<lambda>(sl, name). (name, judge_outputs jdg (ad_text ad) ''skills'' sl))
                      (filter (\<lambda>(sl, name). sl \<noteq> [])
                         [(hard sv, ''hard''), (soft sv, ''soft''), (both sv, ''both'')]))))) \<and>
           (skills st = None \<or> skills st = Some (SkillsDict None) \<longrightarrow> ev ''skills'' = None)"
proof -
  let ?ad = "ad_text (last ads)"
  let ?ev = "ad_entries jdg st ?ad Map.empty"
  have l: "last ads \<in> set ads" using ne by simp
  have d: "dom ?ev \<subseteq> set tasks"
    by (auto simp: ad_entries_apply split: if_splits)
  have r1: "?ev ''requirements'' = expected_entry jdg st ?ad ''requirements''"
    and r2: "?ev ''responsibilities'' = expected_entry jdg st ?ad ''responsibilities''"
    and r3: "?ev ''skills'' = expected_entry jdg st ?ad ''skills''"
    by (auto simp: ad_entries_apply tasks_mem)
  have a: "\<forall>items. requirements st = Some items \<and> items \<noteq> [] \<longrightarrow>
              (\<exists>ad \<in> set ads. ?ev ''requirements'' =
                 Some (TaskResult (judge_outputs jdg (ad_text ad) ''requirements'' items)))"
    using l by (auto simp: r1 expected_requirements)
  have a': "requirements st = None \<or> requirements st = Some [] \<longrightarrow> ?ev ''requirements'' = None"
    by (auto simp: r1 expected_requirements)
  have b: "\<forall>items. responsibilities st = Some items \<and> items \<noteq> [] \<longrightarrow>
              (\<exists>ad \<in> set ads. ?ev ''responsibilities'' =
                 Some (TaskResult (judge_outputs jdg (ad_text ad) ''responsibilities'' items)))"
    using l by (auto simp: r2 expected_responsibilities)
  have b': "responsibilities st = None \<or> responsibilities st = Some [] \<longrightarrow>
              ?ev ''responsibilities'' = None"
    by (auto simp: r2 expected_responsibilities)
  have c: "\<forall>sv. skills st = Some (SkillsModel sv) \<and>
                 (hard sv \<noteq> [] \<or> soft sv \<noteq> [] \<or> both sv \<noteq> []) \<longrightarrow>
              (\<exists>ad \<in> set ads. ?ev ''skills'' =
                 Some (SkillResults
                   (map (\<lambda>(sl, name). (name, judge_outputs jdg (ad_text ad) ''skills'' sl))
                      (filter (\<lambda>(sl, name). sl \<noteq> [])
                         [(hard sv, ''hard''), (soft sv, ''soft''), (both sv, ''both'')]))))"
  proof (intro allI impI)
    fix sv
    assume h: "skills st = Some (SkillsModel sv) \<and>
                 (hard sv \<noteq> [] \<or> soft sv \<noteq> [] \<or> both sv \<noteq> [])"
    then have "?ev ''skills'' =
        Some (SkillResults
          (map (\<lambda>(sl, name). (name, judge_outputs jdg ?ad ''skills'' sl))
             (filter (\<lambda>(sl, name). sl \<noteq> [])
                [(hard sv, ''hard''), (soft sv, ''soft''), (both sv, ''both'')])))"
      unfolding r3 expected_skills by simp
    with l show "\<exists>ad \<in> set ads. ?ev ''skills'' =
                 Some (SkillResults
                   (map (\<lambda>(sl, name). (name, judge_outputs jdg (ad_text ad) ''skills'' sl))
                      (filter (\<lambda>(sl, name). sl \<noteq> [])
                         [(hard sv, ''hard''), (soft sv, ''soft''), (both sv, ''both'')])))"
      by blast
  qed
  have c': "skills st = None \<or> skills st = Some (SkillsDict None) \<longrightarrow> ?ev ''skills'' = None"
    by (auto simp: r3 expected_skills)
  have run: "evaluate_correctness jdg st =
     Inr \<lparr> upd_skills = None, upd_requirements = None, upd_responsibilities = None,
           upd_evaluation = Some ?ev, upd_messages = [eval_message] \<rparr>"
    by (rule evaluate_correctness_result [OF ads ne nd])
  show ?thesis
    unfolding run using d a a' b b' c c' by simp
qed

theorem evaluation_keyed_by_task_witness:
  "job_ads one_ad_eval_state = Some [\<lparr> ad_text = ''We need SQL and teamwork.'' \<rparr>] \<and>
   [\<lparr> ad_text = ''We need SQL and teamwork.'' \<rparr>] \<noteq> [] \<and>
   skills one_ad_eval_state = None \<and>
   requirements one_ad_eval_state = Some [ascii ''degree''] \<and>
   (\<exists>cmd ev. evaluate_correctness eight_judge one_ad_eval_state = Inr cmd \<and>
      upd_evaluation cmd = Some ev \<and> dom ev \<subseteq> set tasks \<and>
      ev ''requirements'' =
        Some (TaskResult (judge_outputs eight_judge ''We need SQL and teamwork.'' ''requirements''
          [ascii ''degree''])) \<and>
      ev ''responsibilities'' = None \<and> ev ''skills'' = None)"
proof -
  have ads: "job_ads one_ad_eval_state = Some [\<lparr> ad_text = ''We need SQL and teamwork.'' \<rparr>]"
    and st: "skills one_ad_eval_state = None" "responsibilities one_ad_eval_state = None"
      "requirements one_ad_eval_state = Some [ascii ''degree'']"
    by (simp_all add: one_ad_eval_state_def one_ad_state_def base_state_def)
  have ne: "[\<lparr> ad_text = ''We need SQL and teamwork.'' \<rparr>] \<noteq> []" by simp
  have nd: "\<forall>d. skills one_ad_eval_state \<noteq> Some (SkillsDict (Some d))"
    by (simp add: st)
  have i: "[ascii ''degree''] \<noteq> []" by simp
  show ?thesis
    using evaluation_keyed_by_task [OF ads ne nd, of eight_judge] ads st i
    by auto
qed

text \<open>
  Claim C10. Every result in the mapping that the evaluation step returns has as its
  scores the raw scores of one answer of the judge, each divided by 10, the upper end of
  the configured range 0 to 10 (the lower end is not subtracted), in the same order; and
  when the raw scores of that answer lie inside the range, each normalised score is
  between 0 and 1. Scores are real numbers here.
\<close>

theorem scores_normalised:
  assumes run: "evaluate_correctness jdg st = Inr cmd" and ev: "upd_evaluation cmd = Some ev"
    and entry: "ev task = Some v" "r \<in> set (entry_results v)"
  shows "score_range = (0, 10) \<and>
         (\<exists>req. reasoning r = reasoning (jdg req) \<and>
                score r = map (\<lambda>raw. raw / 10) (score (jdg req)) \<and>
                ((\<forall>raw \<in> set (score (jdg req)).
                     real_of_int (fst score_range) \<le> raw \<and> raw \<le> real_of_int (snd score_range)) \<longrightarrow>
                 (\<forall>x \<in> set (score r). 0 \<le> x \<and> x \<le> 1)))"
proof -
  obtain ads where ads: "job_ads st = Some ads" and ne: "ads \<noteq> []"
    using run ev by (auto simp: evaluate_correctness_def only_message_def Let_def
        split: option.splits if_splits)
  have nd: "\<forall>d. skills st \<noteq> Some (SkillsDict (Some d))"
  proof (intro allI notI)
    fix d assume "skills st = Some (SkillsDict (Some d))"
    from evaluate_correctness_dumped [OF ads ne this, of jdg] run show False by simp
  qed
  let ?ad = "ad_text (last ads)"
  have evd: "ev = ad_entries jdg st ?ad Map.empty"
    using run ev unfolding evaluate_correctness_result [OF ads ne nd] by auto
  have e: "expected_entry jdg st ?ad task = Some v" and t: "task \<in> set tasks"
    using entry(1) unfolding evd ad_entries_apply by (simp_all split: if_splits)
  have "\<exists>items. r = judge_outputs jdg ?ad task items"
  proof -
    consider "task = ''skills''" | "task = ''requirements''" | "task = ''responsibilities''"
      using t by (auto simp: tasks_def)
    then show ?thesis
    proof cases
      case 1
      then show ?thesis
        using e entry(2)
        by (auto simp: expected_skills entry_results_def
            split: option.splits skills_value.splits if_splits)
    next
      case 2
      then show ?thesis
        using e entry(2)
        by (auto simp: expected_requirements entry_results_def split: option.splits if_splits)
    next
      case 3
      then show ?thesis
        using e entry(2)
        by (auto simp: expected_responsibilities entry_results_def split: option.splits if_splits)
    qed
  qed
  then obtain items where r: "r = judge_outputs jdg ?ad task items" ..
  let ?req = "format_prompt ?ad items task"
  have form: "reasoning r = reasoning (jdg ?req)"
    "score r = map (\<lambda>raw. raw / 10) (score (jdg ?req))"
    by (simp_all add: r judge_outputs_form score_range_def)
  have bounds: "(\<forall>raw \<in> set (score (jdg ?req)).
                     real_of_int (fst score_range) \<le> raw \<and> raw \<le> real_of_int (snd score_range)) \<longrightarrow>
                 (\<forall>x \<in> set (score r). 0 \<le> x \<and> x \<le> 1)"
    by (auto simp: form score_range_def)
  have sr: "score_range = (0, 10)" by (simp add: score_range_def)
  from sr form bounds show ?thesis by blast
qed

theorem scores_normalised_witness:
  "score (eight_judge (format_prompt ''We need SQL and teamwork.'' [ascii ''degree''] ''requirements'')) = [8] \<and>
   evaluate_correctness eight_judge one_ad_eval_state =
     Inr \<lparr> upd_skills = None, upd_requirements = None, upd_responsibilities = None,
           upd_evaluation =
             Some [''requirements'' \<mapsto>
                     TaskResult \<lparr> reasoning = [''stated in the ad''], score = [4 / 5] \<rparr>],
           upd_messages = [eval_message] \<rparr> \<and>
   (8 :: real) / 10 = 4 / 5 \<and>
   (0 :: real) \<le> 4 / 5 \<and> (4 / 5 :: real) \<le> 1"
proof -
  let ?r = "\<lparr> reasoning = [''stated in the ad''], score = [4 / 5 :: real] \<rparr>"
  let ?ev = "[''requirements'' \<mapsto> TaskResult ?r]"
  let ?cmd = "\<lparr> upd_skills = None, upd_requirements = None, upd_responsibilities = None,
           upd_evaluation = Some ?ev, upd_messages = [eval_message] \<rparr>"
  let ?ads = "[\<lparr> ad_text = ''We need SQL and teamwork.'' \<rparr>]"
  have ads: "job_ads one_ad_eval_state = Some ?ads"
    and st: "skills one_ad_eval_state = None" "responsibilities one_ad_eval_state = None"
      "requirements one_ad_eval_state = Some [ascii ''degree'']"
    by (simp_all add: one_ad_eval_state_def one_ad_state_def base_state_def)
  have ne: "?ads \<noteq> []" by simp
  have nd: "\<forall>d. skills one_ad_eval_state \<noteq> Some (SkillsDict (Some d))"
    by (simp add: st)
  have j: "judge_outputs eight_judge ''We need SQL and teamwork.'' ''requirements'' [ascii ''degree''] = ?r"
    by (simp add: judge_outputs_form eight_judge_def format_prompt_def score_range_def)
  have m: "ad_entries eight_judge one_ad_eval_state (ad_text (last ?ads)) Map.empty = ?ev"
    using requirements_only_map [OF st, of eight_judge "''We need SQL and teamwork.''"]
    by (simp add: j)
  have run: "evaluate_correctness eight_judge one_ad_eval_state = Inr ?cmd"
    unfolding evaluate_correctness_result [OF ads ne nd] m by simp
  have ev: "upd_evaluation ?cmd = Some ?ev" by simp
  have entry: "?ev ''requirements'' = Some (TaskResult ?r)" "?r \<in> set (entry_results (TaskResult ?r))"
    by (simp_all add: entry_results_def)
  have range: "\<forall>req. \<forall>raw \<in> set (score (eight_judge req)).
      real_of_int (fst score_range) \<le> raw \<and> raw \<le> real_of_int (snd score_range)"
    by (simp add: eight_judge_def score_range_def)
  have all: "\<forall>x \<in> set (score ?r). 0 \<le> x \<and> x \<le> 1"
    using scores_normalised [OF run ev entry] range by blast
  have mem: "(4 / 5 :: real) \<in> set (score ?r)" by simp
  have bounds: "(0 :: real) \<le> 4 / 5 \<and> (4 / 5 :: real) \<le> 1"
    by (rule bspec [OF all mem])
  have raw: "score (eight_judge (format_prompt ''We need SQL and teamwork.'' [ascii ''degree''] ''requirements'')) = [8]"
    by (simp add: eight_judge_def)
  have calc: "(8 :: real) / 10 = 4 / 5" by simp
  from raw run calc bounds show ?thesis by blast
qed

end
